theory Spec2Isabelle
  imports Complex_Main
begin

section \<open>The serial link to the stage controller (marlin\_serial.py)\<close>

text \<open>
  Bytes read from the port are byte strings; a \<^typ>\<open>char\<close> is one byte. The two
  replies the protocol distinguishes are the constants of marlin.py.
\<close>

type_synonym bytes = string

definition BUSY_MSG :: bytes where
  "BUSY_MSG = ''echo:busy: processing'' @ [CHR 0x0A]"

definition OK_MSG :: bytes where
  "OK_MSG = ''ok'' @ [CHR 0x0A]"

text \<open>
  The exceptions that the modelled code raises or lets through.
\<close>

datatype error =
    IOError bytes
  | ValueError
  | TypeError
  | AssertionError
  | AttributeError
  | RuntimeError
  | OtherError string

text \<open>
  Python's floats. A finite float is taken as the real number it stands for (rounding to a
  double and overflow are not modelled); beside them stand the two infinities and NaN,
  each with its comparisons and arithmetic: every comparison with NaN is false, and NaN
  spreads through sums and products.
\<close>

datatype pyfloat = Finite real | PosInf | NegInf | NaN

fun float_gt :: "pyfloat \<Rightarrow> pyfloat \<Rightarrow> bool" where
  "float_gt NaN b = False"
| "float_gt a NaN = False"
| "float_gt (Finite a) (Finite b) = (a > b)"
| "float_gt (Finite a) PosInf = False"
| "float_gt (Finite a) NegInf = True"
| "float_gt PosInf PosInf = False"
| "float_gt PosInf b = True"
| "float_gt NegInf b = False"


fun float_add :: "pyfloat \<Rightarrow> pyfloat \<Rightarrow> pyfloat" where
  "float_add NaN b = NaN"
| "float_add a NaN = NaN"
| "float_add (Finite a) (Finite b) = Finite (a + b)"
| "float_add (Finite a) b = b"
| "float_add PosInf NegInf = NaN"
| "float_add NegInf PosInf = NaN"
| "float_add a b = a"

definition float_neg :: "pyfloat \<Rightarrow> pyfloat" where
  "float_neg a =
     (case a of Finite r \<Rightarrow> Finite (- r) | PosInf \<Rightarrow> NegInf | NegInf \<Rightarrow> PosInf | NaN \<Rightarrow> NaN)"

definition float_sign :: "pyfloat \<Rightarrow> int" where
  "float_sign a =
     (case a of
        Finite r \<Rightarrow> (if r < 0 then - 1 else if r = 0 then 0 else 1)
      | PosInf \<Rightarrow> 1
      | NegInf \<Rightarrow> - 1
      | NaN \<Rightarrow> 0)"

fun float_mul :: "pyfloat \<Rightarrow> pyfloat \<Rightarrow> pyfloat" where
  "float_mul NaN b = NaN"
| "float_mul a NaN = NaN"
| "float_mul (Finite a) (Finite b) = Finite (a * b)"
| "float_mul a b =
     (if float_sign a * float_sign b = 0 then NaN
      else if float_sign a * float_sign b < 0 then NegInf else PosInf)"

text \<open>
  The command lines written to the controller, kept structured: the text of a line is
  determined by the fields. \<open>G0 f x y z\<close> is the line \<open>G0 F<f>X<x>Y<y>Z<z>\<close> with
  the axes that are present, \<open>G28 x y z\<close> the homing line with the chosen axes,
  \<open>M106 p s\<close> the line \<open>M106 P<p> S<s>\<close>.
\<close>

datatype gcode =
    G0 pyfloat "pyfloat option" "pyfloat option" "pyfloat option"
  | G28 bool bool bool
  | G90
  | G91
  | M106 int int
  | M112
  | M114
  | M400
  | M410

text \<open>
  \<open>MarlinSerial\<close>. With \<open>sim\<close> set no port exists: \<open>read\<close> answers \<open>ok\<close> and
  \<open>cmd\<close> and \<open>clear\<close> only write to the log. Otherwise \<open>rx n\<close> is what the
  \<open>n\<close>-th \<open>readline\<close> on the port returns (the empty string when its 0.25 s timeout
  passes with nothing received), \<open>rx_pos\<close> counts the \<open>readline\<close> calls made so far,
  and \<open>tx\<close> holds the lines written. The debug log lines of the real port are left out.
\<close>

datatype ser_log = LogSending gcode | LogClearing

record marlin_serial =
  sim :: bool
  rx :: "nat \<Rightarrow> bytes"
  rx_pos :: nat
  tx :: "gcode list"
  ser_info :: "ser_log list"

definition ser_clear :: "marlin_serial \<Rightarrow> marlin_serial" where
  "ser_clear s = (if sim s then s\<lparr>ser_info := ser_info s @ [LogClearing]\<rparr> else s)"

definition ser_read :: "marlin_serial \<Rightarrow> bytes \<times> marlin_serial" where
  "ser_read s =
     (if sim s then (OK_MSG, s)
      else (rx s (rx_pos s), s\<lparr>rx_pos := Suc (rx_pos s)\<rparr>))"

definition ser_cmd :: "marlin_serial \<Rightarrow> gcode \<Rightarrow> marlin_serial" where
  "ser_cmd s c =
     (if sim s then s\<lparr>ser_info := ser_info s @ [LogSending c]\<rparr>
      else s\<lparr>tx := tx s @ [c]\<rparr>)"

section \<open>The motion controller (marlin.py)\<close>

datatype log_level = Info | Critical

datatype log_msg =
    MsgEmergency
  | MsgKill
  | MsgNoPosition
  | MsgUnsafeMove "pyfloat option" "pyfloat option" "pyfloat option"
  | MsgMoving "pyfloat option" "pyfloat option" "pyfloat option"
  | MsgUnsafeRelative
  | MsgHoming bool bool bool
  | MsgSafeHeight pyfloat

record marlin =
  ser :: marlin_serial
  safe_height :: pyfloat
  logged :: "(log_level \<times> log_msg) list"

definition marlin_log :: "marlin \<Rightarrow> log_level \<Rightarrow> log_msg \<Rightarrow> marlin" where
  "marlin_log m l msg = m\<lparr>logged := logged m @ [(l, msg)]\<rparr>"

definition marlin_cmd :: "marlin \<Rightarrow> gcode \<Rightarrow> marlin" where
  "marlin_cmd m c = m\<lparr>ser := ser_cmd (ser m) c\<rparr>"

text \<open>
  An operation of the controller takes the state and gives back the state together with
  either the exception raised or the value returned; \<open>None\<close> stands for a call that
  never returns.
\<close>

type_synonym 'a result = "((error + 'a) \<times> marlin) option"

text \<open>
  The loop of \<open>__wait_cmd_completed\<close>. One round reads a line, appends it to the
  message when it is not empty, resets the counter on the busy message, leaves on the
  \<open>ok\<close> message, and otherwise sleeps 0.25 s, increments the counter and raises once
  the counter exceeds \<open>max_tries\<close>. A controller that keeps sending the busy message
  keeps the loop running for ever. The keyboard interrupt, a signal from outside, is not
  modelled.
\<close>

partial_function (option) wait_loop ::
  "nat \<Rightarrow> nat \<Rightarrow> bytes \<Rightarrow> marlin_serial \<Rightarrow> ((error + bytes) \<times> marlin_serial) option"
where
  "wait_loop max_tries counter msg s =
     (case ser_read s of (res, s1) \<Rightarrow>
        (let msg1 = (if res \<noteq> [] then msg @ res else msg);
             counter1 = (if res = BUSY_MSG then 0 else counter)
         in if res = OK_MSG then Some (Inr msg1, s1)
            else (let counter2 = counter1 + 1
                  in if counter2 > max_tries then Some (Inl (IOError msg1), s1)
                     else wait_loop max_tries counter2 msg1 s1)))"

definition wait_cmd_completed :: "marlin \<Rightarrow> nat \<Rightarrow> bytes result" where
  "wait_cmd_completed m max_tries =
     (case wait_loop max_tries 0 [] (ser m) of
        None \<Rightarrow> None
      | Some (Inl e, s1) \<Rightarrow> Some (Inl e, m\<lparr>ser := s1\<rparr>)
      | Some (Inr msg, s1) \<Rightarrow>
          (case ser_read s1 of (r, s2) \<Rightarrow> Some (Inr (msg @ r), m\<lparr>ser := s2\<rparr>)))"

text \<open>Sequencing: the second step runs on the state the first one returned with.\<close>

definition and_then :: "'a result \<Rightarrow> ('a \<Rightarrow> marlin \<Rightarrow> 'b result) \<Rightarrow> 'b result" where
  "and_then r f =
     (case r of
        None \<Rightarrow> None
      | Some (Inl e, m) \<Rightarrow> Some (Inl e, m)
      | Some (Inr v, m) \<Rightarrow> f v m)"

definition wait_move_completed :: "marlin \<Rightarrow> unit result" where
  "wait_move_completed m =
     and_then (wait_cmd_completed (marlin_cmd (m\<lparr>ser := ser_clear (ser m)\<rparr>) M400) 10)
       (\<lambda>_ m1. Some (Inr (), m1))"

definition set_safe_height :: "marlin \<Rightarrow> pyfloat \<Rightarrow> marlin" where
  "set_safe_height m z = (marlin_log m Info (MsgSafeHeight z))\<lparr>safe_height := z\<rparr>"

definition is_safe_height :: "marlin \<Rightarrow> pyfloat \<Rightarrow> bool" where
  "is_safe_height m z = (if float_gt z (safe_height m) then False else True)"

definition move ::
  "marlin \<Rightarrow> pyfloat option \<Rightarrow> pyfloat option \<Rightarrow> pyfloat option \<Rightarrow> pyfloat
     \<Rightarrow> unit result" where
  "move m x y z feed_rate =
     (if (case z of None \<Rightarrow> False | Some zv \<Rightarrow> \<not> is_safe_height m zv)
      then Some (Inr (), marlin_log m Critical (MsgUnsafeMove x y z))
      else and_then
             (wait_cmd_completed
                (marlin_log (marlin_cmd m (G0 (float_mul feed_rate (Finite 60)) x y z)) Info
                   (MsgMoving x y z)) 10)
             (\<lambda>_ m1. wait_move_completed m1))"

subsection \<open>Reading the position\<close>

text \<open>
  \<open>str\<close> of a byte string, as Python prints it: the prefix \<open>b\<close>, a quote (the
  double quote when the bytes hold a single quote and no double quote), and each byte
  escaped where it is the quote, a backslash, a tab, a line feed, a carriage return or
  not printable.
\<close>

definition hex_digit :: "nat \<Rightarrow> char" where
  "hex_digit n = ''0123456789abcdef'' ! (n mod 16)"

definition repr_byte :: "char \<Rightarrow> char \<Rightarrow> string" where
  "repr_byte q c =
     (if c = q \<or> c = CHR 0x5C then [CHR 0x5C, c]
      else if c = CHR 0x09 then [CHR 0x5C, CHR ''t'']
      else if c = CHR 0x0A then [CHR 0x5C, CHR ''n'']
      else if c = CHR 0x0D then [CHR 0x5C, CHR ''r'']
      else if (of_char c :: nat) < 32 \<or> 127 \<le> (of_char c :: nat)
        then [CHR 0x5C, CHR ''x'', hex_digit (of_char c div 16), hex_digit (of_char c mod 16)]
      else [c])"

definition str_bytes :: "bytes \<Rightarrow> string" where
  "str_bytes b =
     (let q = (if CHR 0x27 \<in> set b \<and> CHR 0x22 \<notin> set b then CHR 0x22 else CHR 0x27)
      in [CHR ''b'', q] @ concat (map (repr_byte q) b) @ [q])"

text \<open>\<open>s.split(c)\<close>: the pieces between the occurrences of \<open>c\<close>, at least one.\<close>

fun split_on :: "char \<Rightarrow> string \<Rightarrow> string list" where
  "split_on c [] = [[]]"
| "split_on c (x # xs) =
     (if x = c then [] # split_on c xs
      else (case split_on c xs of
              [] \<Rightarrow> [[x]]
            | p # ps \<Rightarrow> (x # p) # ps))"

text \<open>\<open>s.split(' ', 1)[0]\<close>: what stands before the first space.\<close>

definition before_space :: "string \<Rightarrow> string" where
  "before_space s = takeWhile (\<lambda>c. c \<noteq> CHR '' '') s"

text \<open>
  \<open>float\<close> of a string; \<open>None\<close> is Python's ValueError. Surrounding ASCII white
  space is dropped and a sign is read; then come \<open>inf\<close>, \<open>infinity\<close> or \<open>nan\<close>
  in any mix of cases, or digits with an optional fraction and an optional exponent, where
  a single underscore may stand between two digits.
\<close>

definition is_digit :: "char \<Rightarrow> bool" where
  "is_digit c = ((48::nat) \<le> of_char c \<and> (of_char c :: nat) \<le> 57)"

definition is_space :: "char \<Rightarrow> bool" where
  "is_space c = (c = CHR '' '' \<or> c = CHR 0x09 \<or> c = CHR 0x0A \<or> c = CHR 0x0B
                 \<or> c = CHR 0x0C \<or> c = CHR 0x0D)"

definition strip :: "string \<Rightarrow> string" where
  "strip s = rev (dropWhile is_space (rev (dropWhile is_space s)))"

definition digits_value :: "string \<Rightarrow> nat" where
  "digits_value ds = foldl (\<lambda>acc c. 10 * acc + (of_char c - 48)) 0 ds"

definition split_sign :: "string \<Rightarrow> bool \<times> string" where
  "split_sign s =
     (case s of
        [] \<Rightarrow> (False, [])
      | c # cs \<Rightarrow> if c = CHR ''-'' then (True, cs) else if c = CHR ''+'' then (False, cs)
                  else (False, s))"

text \<open>The digits at the front of a string, read over single underscores between two
  digits, and what follows them.\<close>

fun digit_run :: "string \<Rightarrow> string \<times> string" where
  "digit_run [] = ([], [])"
| "digit_run (c # cs) =
     (if is_digit c
      then (case cs of
              u # d # rest \<Rightarrow>
                if u = CHR ''_'' \<and> is_digit d
                then (case digit_run (d # rest) of (ds, r) \<Rightarrow> (c # ds, r))
                else (case digit_run cs of (ds, r) \<Rightarrow> (c # ds, r))
            | _ \<Rightarrow> (case digit_run cs of (ds, r) \<Rightarrow> (c # ds, r)))
      else ([], c # cs))"

text \<open>A letter, in either case, against the lower-case letter \<open>l\<close>.\<close>

definition same_letter :: "char \<Rightarrow> char \<Rightarrow> bool" where
  "same_letter c l = (c = l \<or> (of_char c :: nat) + 32 = of_char l)"

definition is_word :: "string \<Rightarrow> string \<Rightarrow> bool" where
  "is_word s w = list_all2 same_letter s w"

definition float_exponent :: "string \<Rightarrow> int option" where
  "float_exponent s =
     (case s of
        [] \<Rightarrow> Some 0
      | c # cs \<Rightarrow>
          if c = CHR ''e'' \<or> c = CHR ''E'' then
            (case split_sign cs of (neg, t) \<Rightarrow>
               (case digit_run t of (ds, r) \<Rightarrow>
                  if ds \<noteq> [] \<and> r = []
                  then Some (if neg then - int (digits_value ds) else int (digits_value ds))
                  else None))
          else None)"

definition float_number :: "string \<Rightarrow> real option" where
  "float_number u =
     (case digit_run u of (ip, r1) \<Rightarrow>
        (case (case r1 of
                 [] \<Rightarrow> ([], [])
               | c # cs \<Rightarrow> if c = CHR ''.'' then digit_run cs else ([], r1)) of
           (fp, r2) \<Rightarrow>
             if ip = [] \<and> fp = [] then None
             else (case float_exponent r2 of
                     None \<Rightarrow> None
                   | Some e \<Rightarrow>
                       Some (real (digits_value (ip @ fp)) / 10 ^ length fp * 10 powi e))))"

definition py_float :: "string \<Rightarrow> pyfloat option" where
  "py_float s =
     (case split_sign (strip s) of (neg, u) \<Rightarrow>
        if is_word u ''inf'' \<or> is_word u ''infinity''
        then Some (if neg then NegInf else PosInf)
        else if is_word u ''nan'' then Some NaN
        else (case float_number u of
                None \<Rightarrow> None
              | Some v \<Rightarrow> Some (Finite (if neg then - v else v))))"

text \<open>
  \<open>get_position\<close>: the query is written, one line is read and printed with
  \<open>str\<close>, the command is waited for, and then the second, third and fourth piece
  between colons are converted. Only a missing piece (IndexError) is caught and answered
  with the origin; a piece that is no number raises ValueError to the caller.
\<close>

definition marlin_read :: "marlin \<Rightarrow> bytes \<times> marlin" where
  "marlin_read m = (case ser_read (ser m) of (r, s1) \<Rightarrow> (r, m\<lparr>ser := s1\<rparr>))"

datatype 'a attempt = Raised error | Missing | Got 'a

definition coordinate :: "string list \<Rightarrow> nat \<Rightarrow> pyfloat attempt" where
  "coordinate s i =
     (if length s \<le> i then Missing
      else (case py_float (before_space (s ! i)) of
              None \<Rightarrow> Raised ValueError
            | Some v \<Rightarrow> Got v))"

definition parse_position :: "string \<Rightarrow> (pyfloat \<times> pyfloat \<times> pyfloat) attempt" where
  "parse_position pos_str =
     (let s = split_on CHR '':'' pos_str
      in case coordinate s 1 of
           Raised e \<Rightarrow> Raised e
         | Missing \<Rightarrow> Missing
         | Got x \<Rightarrow>
             (case coordinate s 2 of
                Raised e \<Rightarrow> Raised e
              | Missing \<Rightarrow> Missing
              | Got y \<Rightarrow>
                  (case coordinate s 3 of
                     Raised e \<Rightarrow> Raised e
                   | Missing \<Rightarrow> Missing
                   | Got z \<Rightarrow> Got (x, y, z))))"

definition get_position :: "marlin \<Rightarrow> (pyfloat \<times> pyfloat \<times> pyfloat) result" where
  "get_position m =
     (case marlin_read (marlin_cmd m M114) of (r, m1) \<Rightarrow>
        and_then (wait_cmd_completed m1 10)
          (\<lambda>_ m2. case parse_position (str_bytes r) of
                     Raised e \<Rightarrow> Some (Inl e, m2)
                   | Missing \<Rightarrow>
                       Some (Inr (Finite 0, Finite 0, Finite 0),
                             marlin_log m2 Critical MsgNoPosition)
                   | Got p \<Rightarrow> Some (Inr p, m2)))"

subsection \<open>Moves, homing, fan\<close>

definition relative_mode :: "marlin \<Rightarrow> bool \<Rightarrow> unit result" where
  "relative_mode m enable =
     (if enable
      then and_then (wait_cmd_completed (marlin_cmd m G91) 10) (\<lambda>_ m1. Some (Inr (), m1))
      else and_then (wait_cmd_completed (marlin_cmd m G90) 10) (\<lambda>_ m1. Some (Inr (), m1)))"

text \<open>
  \<open>relative_move\<close>. The sum \<open>pos[2] + z\<close> raises TypeError when \<open>z\<close> is
  \<open>None\<close>. After the log line of the height check the method goes on: it has no
  \<open>return\<close> there.
\<close>

definition relative_move ::
  "marlin \<Rightarrow> pyfloat option \<Rightarrow> pyfloat option \<Rightarrow> pyfloat option \<Rightarrow> pyfloat
     \<Rightarrow> unit result" where
  "relative_move m x y z feed_rate =
     and_then (get_position m)
       (\<lambda>pos m1.
          case z of
            None \<Rightarrow> Some (Inl TypeError, m1)
          | Some dz \<Rightarrow>
              and_then
                (relative_mode
                   (if \<not> is_safe_height m1 (float_add (snd (snd pos)) dz)
                    then marlin_log m1 Critical MsgUnsafeRelative else m1)
                   True)
                (\<lambda>_ m2. and_then (move m2 x y z feed_rate) (\<lambda>_ m3. relative_mode m3 False)))"



definition emergency :: "marlin \<Rightarrow> unit result" where
  "emergency m =
     and_then (wait_cmd_completed (marlin_log (marlin_cmd m M410) Critical MsgEmergency) 10)
       (\<lambda>_ m1. Some (Inr (), m1))"

definition kill :: "marlin \<Rightarrow> unit result" where
  "kill m =
     and_then (wait_cmd_completed (marlin_log (marlin_cmd m M112) Critical MsgKill) 10)
       (\<lambda>_ m1. Some (Inr (), m1))"

section \<open>The position planner (utils.py)\<close>

text \<open>
  The planner is modelled on Python's integers, where its arithmetic is exact: the printed
  form of an integer has no decimal point, and \<open>round(n, fp)\<close> with \<open>fp \<ge> 0\<close>
  gives \<open>n\<close> back. What it does on floats depends on their rounding and is not
  covered. The values handed to \<open>get_decimals_len\<close> are numbers or, from
  \<open>compute_positions\<close>, whole positions; \<open>str_val\<close> prints both as \<open>str\<close> does.
\<close>

definition digit_char :: "nat \<Rightarrow> char" where
  "digit_char n = ''0123456789'' ! (n mod 10)"

fun str_nat :: "nat \<Rightarrow> string" where
  "str_nat n =
     (if n < 10 then [digit_char n]
      else str_nat (n div 10) @ [digit_char n])"

definition str_int :: "int \<Rightarrow> string" where
  "str_int i = (if i < 0 then CHR ''-'' # str_nat (nat (- i)) else str_nat (nat i))"

type_synonym position = "int \<times> int \<times> int"

datatype pyval = PInt int | PTuple position

fun str_val :: "pyval \<Rightarrow> string" where
  "str_val (PInt i) = str_int i"
| "str_val (PTuple (a, b, c)) =
     ''('' @ str_int a @ '', '' @ str_int b @ '', '' @ str_int c @ '')''"

text \<open>
  \<open>get_decimals_len\<close>: the greatest length of the second piece of \<open>str(x).split('.')\<close>
  over the list; an item with no second piece (IndexError) is passed over.
\<close>

fun decimals_loop :: "nat \<Rightarrow> pyval list \<Rightarrow> nat" where
  "decimals_loop fp [] = fp"
| "decimals_loop fp (x # xs) =
     (case split_on CHR ''.'' (str_val x) of
        p0 # p1 # ps \<Rightarrow> decimals_loop (if length p1 > fp then length p1 else fp) xs
      | _ \<Rightarrow> decimals_loop fp xs)"

definition get_decimals_len :: "pyval list \<Rightarrow> nat" where
  "get_decimals_len numbers = decimals_loop 0 numbers"

definition py_round :: "int \<Rightarrow> nat \<Rightarrow> int" where
  "py_round n fp = n"

text \<open>
  The two loops of \<open>range_rounded\<close>. With a step that is not positive they never end.
\<close>

partial_function (option) range_up ::
  "int \<Rightarrow> int \<Rightarrow> int \<Rightarrow> nat \<Rightarrow> int list \<Rightarrow> int list option"
where
  "range_up start stop step fp lst =
     (if start < stop then range_up (start + step) stop step fp (lst @ [py_round start fp])
      else Some lst)"

partial_function (option) range_down ::
  "int \<Rightarrow> int \<Rightarrow> int \<Rightarrow> nat \<Rightarrow> int list \<Rightarrow> int list option"
where
  "range_down start stop step fp lst =
     (if start > stop then range_down (start - step) stop step fp (lst @ [py_round start fp])
      else Some lst)"

definition range_rounded :: "int \<Rightarrow> int \<Rightarrow> int \<Rightarrow> int list option" where
  "range_rounded start stop step =
     (let fp = get_decimals_len [PInt start, PInt stop, PInt step]
      in case (if start < stop then range_up start stop step fp []
               else range_down start stop step fp []) of
           None \<Rightarrow> None
         | Some lst \<Rightarrow> Some (lst @ [py_round stop fp]))"

text \<open>
  The nested loops of \<open>compute_positions\<close>. The lists \<open>y_pos\<close> and \<open>x_pos\<close> are
  reversed in place, after the loop over them, and stay reversed for the next round of the
  loop around it; so they are passed on.
\<close>

fun x_loop ::
  "int \<Rightarrow> int list \<Rightarrow> position list \<times> int list \<Rightarrow> position list \<times> int list" where
  "x_loop z [] (positions, y_pos) = (positions, y_pos)"
| "x_loop z (x # xs) (positions, y_pos) =
     x_loop z xs (positions @ map (\<lambda>y. (x, y, z)) y_pos, rev y_pos)"

fun z_loop ::
  "int list \<Rightarrow> position list \<times> int list \<times> int list
     \<Rightarrow> position list \<times> int list \<times> int list" where
  "z_loop [] st = st"
| "z_loop (z # zs) (positions, x_pos, y_pos) =
     (case x_loop z x_pos (positions, y_pos) of
        (positions1, y_pos1) \<Rightarrow> z_loop zs (positions1, rev x_pos, y_pos1))"

text \<open>The check at the end: a coordinate printed with more decimals than \<open>fp\<close>
  fails the assertion.\<close>

definition coordinate_ok :: "nat \<Rightarrow> int \<Rightarrow> bool" where
  "coordinate_ok fp i =
     (case split_on CHR ''.'' (str_int i) of
        p0 # p1 # ps \<Rightarrow> length p1 \<le> fp
      | _ \<Rightarrow> True)"

definition position_ok :: "nat \<Rightarrow> position \<Rightarrow> bool" where
  "position_ok fp pos =
     (case pos of (a, b, c) \<Rightarrow> coordinate_ok fp a \<and> coordinate_ok fp b \<and> coordinate_ok fp c)"

definition compute_positions ::
  "position \<Rightarrow> position \<Rightarrow> int \<Rightarrow> (error + position list) option" where
  "compute_positions start stop step =
     (let fp = get_decimals_len [PTuple start, PTuple stop, PInt step]
      in case range_rounded (fst start) (fst stop) step of
           None \<Rightarrow> None
         | Some x_pos \<Rightarrow>
             (case range_rounded (fst (snd start)) (fst (snd stop)) step of
                None \<Rightarrow> None
              | Some y_pos \<Rightarrow>
                  (case range_rounded (snd (snd start)) (snd (snd stop)) step of
                     None \<Rightarrow> None
                   | Some z_pos \<Rightarrow>
                       (let positions = fst (z_loop z_pos ([], x_pos, y_pos))
                        in if list_all (position_ok fp) positions then Some (Inr positions)
                           else Some (Inl AssertionError)))))"

section \<open>Attacks and their registry (attack.py, attack\_importer.py)\<close>

text \<open>
  An attack is code loaded at run time. Its settings are the fields below (positions and
  step on the integers, as in the planner); \<open>repetitions\<close> is what the subclass sets.
  A class of the registry has its name and what calling it with no argument gives: the
  attack, or the exception its constructor raises.
\<close>

record attack =
  start_pos :: position
  end_pos :: position
  step_size :: int
  max_target_temp :: real
  cooling :: real
  repetitions :: int

record attack_cls =
  cls_name :: string
  construct :: "error + attack"

definition get_attack_names :: "attack_cls list \<Rightarrow> string list" where
  "get_attack_names attack_classes = map cls_name attack_classes"

fun get_attack_by_name :: "attack_cls list \<Rightarrow> string \<Rightarrow> attack_cls option" where
  "get_attack_by_name [] name = None"
| "get_attack_by_name (a # as) name =
     (if cls_name a = name then Some a else get_attack_by_name as name)"

section \<open>The log of a run (attack\_logger.py)\<close>

text \<open>
  The file object of the logger: the lines written and whether it is still open. Writing
  to a closed file raises ValueError. The name of the file (a time stamp and the attack's
  name) is left out.
\<close>

record log_file =
  file_lines :: "string list"
  is_open :: bool

record attack_logger =
  attack_name :: "string option"
  logfile :: "log_file option"
  dir :: "string option"


definition set_name :: "attack_logger \<Rightarrow> string \<Rightarrow> attack_logger" where
  "set_name lg name = lg\<lparr>attack_name := Some name\<rparr>"



section \<open>The attack executor (attack\_worker.py)\<close>

text \<open>
  What the executor calls on its collaborators is recorded, in order, in \<open>trace\<close>: the
  hooks of the attack with their answers, the moves and homings asked of the controller,
  the pauses, and the closing of the log. The answers come from outside: the \<open>k\<close>-th
  repetition of a run reads \<open>running_at k\<close> from the flag that \<open>stop\<close> clears in
  another thread, and gets \<open>was_successful_at k\<close>, \<open>critical_check_at k\<close> and the
  temperature \<open>temperature_at k\<close>; \<open>tick\<close> counts the repetitions.
\<close>

datatype event =
    EvInit
  | EvFan int
  | EvHome bool bool bool
  | EvMove "pyfloat option" "pyfloat option" "pyfloat option" pyfloat
  | EvResetTarget
  | EvShout
  | EvWasSuccessful bool
  | EvCriticalCheck bool
  | EvSleep nat
  | EvShutdown
  | EvCloseLog


datatype worker_msg = MsgSuccessful position | MsgCriticalFailed | MsgTooHot real

record attack_worker =
  attack :: "attack option"
  marlin :: marlin
  running :: bool
  progress :: real
  position :: position
  a_log :: attack_logger
  importer :: "attack_cls list"
  worker_log :: "worker_msg list"
  tick :: nat
  trace :: "event list"

text \<open>
  \<open>load_attack\<close>. Calling what the registry returned raises TypeError when it is
  \<open>None\<close>, and a constructor may raise it as well; TypeError is caught and answered
  with \<open>False\<close>, any other exception goes to the caller.
\<close>

definition load_attack :: "attack_worker \<Rightarrow> string \<Rightarrow> (error + bool) \<times> attack_worker" where
  "load_attack w name =
     (let cls = get_attack_by_name (importer w) name;
          w1 = w\<lparr>a_log := set_name (a_log w) name\<rparr>
      in case cls of
           None \<Rightarrow> (Inr False, w1)
         | Some c \<Rightarrow>
             (case construct c of
                Inl e \<Rightarrow> if e = TypeError then (Inr False, w1) else (Inl e, w1)
              | Inr a \<Rightarrow> (Inr True, w1\<lparr>attack := Some a\<rparr>)))"

definition get_progress :: "attack_worker \<Rightarrow> real" where
  "get_progress w = progress w"

definition worker_position :: "attack_worker \<Rightarrow> position" where
  "worker_position w = position w"

definition stop :: "attack_worker \<Rightarrow> attack_worker" where
  "stop w = w\<lparr>running := False\<rparr>"





definition float_of_int :: "int \<Rightarrow> pyfloat" where
  "float_of_int i = Finite (of_int i)"









section \<open>The state snapshot (websocket\_state.py)\<close>

datatype mode = Manual | Joystick | Attack

text \<open>A value of a request's field, as decoded from JSON: a number (Python reads
  \<open>NaN\<close> and \<open>Infinity\<close> too) or a string.\<close>

datatype jval = JNum pyfloat | JStr string

record state =
  mode :: mode
  state_position :: "pyfloat \<times> pyfloat \<times> pyfloat"
  temperature :: real
  state_progress :: real
  attacks :: "string list"
  safe_z :: jval

definition joystick_enabled :: "state \<Rightarrow> bool" where
  "joystick_enabled st = (if mode st = Joystick then True else False)"

definition attack_enabled :: "state \<Rightarrow> bool" where
  "attack_enabled st = (if mode st = Attack then True else False)"

section \<open>Tasks and mode (websocket\_helper.py)\<close>

text \<open>
  The task slot holds a thread: what it was created to run, and whether it was never
  started, is running, or has ended. What a running thread does to the stage happens
  beside the caller and is not part of the caller's step; \<open>join\<close> waits for the end of
  the thread, which is taken to come, and raises RuntimeError on a thread that was never
  started.
\<close>

datatype target =
    RelativeMove pyfloat pyfloat pyfloat pyfloat
  | HomeAxes bool bool bool
  | AbsoluteMove pyfloat pyfloat pyfloat pyfloat
  | JoystickLoop
  | AttackRun

datatype thread_state = Unstarted | Alive | Ended

record thread =
  target :: "target option"
  thread_state :: thread_state

definition started_thread :: "target \<Rightarrow> thread" where
  "started_thread tg = \<lparr>target = Some tg, thread_state = Alive\<rparr>"

definition is_alive :: "thread \<Rightarrow> bool" where
  "is_alive t = (thread_state t = Alive)"

definition join :: "thread \<Rightarrow> error + thread" where
  "join t =
     (case thread_state t of
        Unstarted \<Rightarrow> Inl RuntimeError
      | Alive \<Rightarrow> Inr (t\<lparr>thread_state := Ended\<rparr>)
      | Ended \<Rightarrow> Inr t)"

record joystick_dev =
  js_running :: bool
  js_feed_rate :: pyfloat
  js_step_dist :: pyfloat

text \<open>
  The helper. The controller is one object shared with the executor; it is kept once, in
  \<open>attack_runner\<close>. \<open>joystick_present\<close> says whether the joystick is plugged in, and
  \<open>last_temperature\<close> is what the thermal camera last measured.
\<close>

record helper =
  attack_runner :: attack_worker
  joystick :: "joystick_dev option"
  joystick_present :: bool
  task :: thread
  state :: state
  last_temperature :: real
  helper_log :: "string list"

definition set_mode :: "helper \<Rightarrow> mode \<Rightarrow> helper" where
  "set_mode h md = h\<lparr>state := (state h)\<lparr>mode := md\<rparr>\<rparr>"

definition step ::
  "helper \<Rightarrow> pyfloat \<Rightarrow> pyfloat \<Rightarrow> pyfloat \<Rightarrow> pyfloat \<Rightarrow> bool \<times> helper" where
  "step h speed x y z =
     (if \<not> (attack_enabled (state h) \<and> joystick_enabled (state h))
      then (True, h\<lparr>task := started_thread (RelativeMove x y z speed)\<rparr>)
      else (False, h))"

definition home_axes :: "helper \<Rightarrow> bool \<Rightarrow> bool \<Rightarrow> bool \<Rightarrow> bool \<times> helper" where
  "home_axes h x y z =
     (if \<not> (attack_enabled (state h) \<and> joystick_enabled (state h))
      then (True, h\<lparr>task := started_thread (HomeAxes x y z)\<rparr>)
      else (False, h))"

definition move_to ::
  "helper \<Rightarrow> pyfloat \<Rightarrow> pyfloat \<Rightarrow> pyfloat \<Rightarrow> pyfloat \<Rightarrow> bool \<times> helper" where
  "move_to h speed x y z =
     (if \<not> (attack_enabled (state h) \<and> joystick_enabled (state h))
      then (True, h\<lparr>task := started_thread (AbsoluteMove x y z speed)\<rparr>)
      else (False, h))"

definition is_running :: "helper \<Rightarrow> bool" where
  "is_running h = is_alive (task h)"

text \<open>
  \<open>enable_joystick\<close>. A missing joystick (FileNotFoundError) is answered with
  \<open>False\<close>. With a joystick the method sets its flag and then reads the attribute
  \<open>loop\<close> of the joystick object for the thread's target; the class of joystick.py
  has no attribute of that name, so AttributeError is raised there, before the task slot
  and the mode are written.
\<close>

definition enable_joystick ::
  "helper \<Rightarrow> pyfloat \<Rightarrow> pyfloat \<Rightarrow> (error + bool) \<times> helper" where
  "enable_joystick h speed stp =
     (if attack_enabled (state h) \<or> joystick_enabled (state h) then (Inr False, h)
      else (case joystick h of
              None \<Rightarrow>
                if joystick_present h
                then (Inl AttributeError,
                      h\<lparr>joystick := Some \<lparr>js_running = True, js_feed_rate = speed,
                                            js_step_dist = stp\<rparr>\<rparr>)
                else (Inr False, h\<lparr>helper_log := helper_log h @ [''Joystick is unavailable.'']\<rparr>)
            | Some j \<Rightarrow> (Inl AttributeError, h\<lparr>joystick := Some (j\<lparr>js_running := True\<rparr>)\<rparr>)))"

definition disable_joystick :: "helper \<Rightarrow> (error + bool) \<times> helper" where
  "disable_joystick h =
     (case joystick h of
        None \<Rightarrow> (Inr True, set_mode h Manual)
      | Some j \<Rightarrow>
          (let h1 = h\<lparr>joystick := Some (j\<lparr>js_running := False\<rparr>)\<rparr>
           in case join (task h1) of
                Inl e \<Rightarrow> (Inl e, h1)
              | Inr t \<Rightarrow> (Inr True, set_mode (h1\<lparr>task := t\<rparr>) Manual)))"

definition start_attack :: "helper \<Rightarrow> string \<Rightarrow> (error + bool) \<times> helper" where
  "start_attack h name =
     (if attack_enabled (state h) \<or> joystick_enabled (state h) then (Inr False, h)
      else (case load_attack (attack_runner h) name of
              (Inl e, w) \<Rightarrow> (Inl e, h\<lparr>attack_runner := w\<rparr>)
            | (Inr loaded, w) \<Rightarrow>
                if \<not> loaded then (Inr False, h\<lparr>attack_runner := w\<rparr>)
                else (Inr True,
                      set_mode (h\<lparr>attack_runner := w, task := started_thread AttackRun\<rparr>) Attack)))"

definition stop_attack :: "helper \<Rightarrow> (error + bool) \<times> helper" where
  "stop_attack h =
     (if attack_enabled (state h)
      then (let h1 = h\<lparr>attack_runner := stop (attack_runner h)\<rparr>
            in case join (task h1) of
                 Inl e \<Rightarrow> (Inl e, h1)
               | Inr t \<Rightarrow> (Inr True, set_mode (h1\<lparr>task := t\<rparr>) Manual))
      else (Inr False, h))"

definition float_of :: "jval \<Rightarrow> error + pyfloat" where
  "float_of v =
     (case v of
        JNum r \<Rightarrow> Inr r
      | JStr s \<Rightarrow> (case py_float s of None \<Rightarrow> Inl ValueError | Some r \<Rightarrow> Inr r))"

definition set_safe_z :: "helper \<Rightarrow> jval \<Rightarrow> (error + bool) \<times> helper" where
  "set_safe_z h z =
     (case float_of z of
        Inl e \<Rightarrow> (Inl e, h)
      | Inr v \<Rightarrow>
          (Inr True,
           h\<lparr>attack_runner :=
                (attack_runner h)\<lparr>marlin := set_safe_height (marlin (attack_runner h)) v\<rparr>,
              state := (state h)\<lparr>safe_z := z\<rparr>\<rparr>))"

definition real_position :: "position \<Rightarrow> pyfloat \<times> pyfloat \<times> pyfloat" where
  "real_position p = (case p of (a, b, c) \<Rightarrow> (float_of_int a, float_of_int b, float_of_int c))"

text \<open>\<open>update\<close>: the snapshot is refreshed; the controller is asked for the position
  only outside attack mode and with no task running.\<close>

definition update :: "helper \<Rightarrow> ((error + unit) \<times> helper) option" where
  "update h =
     (let h1 = h\<lparr>state := (state h)\<lparr>temperature := last_temperature h\<rparr>\<rparr>
      in if attack_enabled (state h1)
         then (let h2 = h1\<lparr>state := (state h1)
                          \<lparr>state_progress := get_progress (attack_runner h1),
                           state_position := real_position (worker_position (attack_runner h1))\<rparr>\<rparr>
               in Some (Inr (), if \<not> is_running h2 then set_mode h2 Manual else h2))
         else if \<not> is_running h1
         then (case get_position (marlin (attack_runner h1)) of
                 None \<Rightarrow> None
               | Some (Inl e, m) \<Rightarrow>
                   Some (Inl e, h1\<lparr>attack_runner := (attack_runner h1)\<lparr>marlin := m\<rparr>\<rparr>)
               | Some (Inr p, m) \<Rightarrow>
                   Some (Inr (), h1\<lparr>attack_runner := (attack_runner h1)\<lparr>marlin := m\<rparr>,
                                    state := (state h1)\<lparr>state_position := p\<rparr>\<rparr>))
         else Some (Inr (), h1))"

section \<open>The control channel (websocket\_server.py)\<close>

text \<open>
  A decoded message of type \<open>command\<close>, with the fields its command reads, and what the
  server sends: an error to the sender, the state to every client.
\<close>

datatype command =
    EnableJoystick jval jval
  | DisableJoystick
  | Step jval jval jval jval
  | Home jval jval jval
  | Move jval jval jval jval
  | StartAttack string
  | StopAttack
  | SafeZ jval
  | OtherCommand string

datatype outmsg = ErrorMsg string | StateMsg state

record server =
  helper :: helper
  outbox :: "outmsg list"

definition truthy :: "jval \<Rightarrow> bool" where
  "truthy v = (case v of JNum r \<Rightarrow> r \<noteq> Finite 0 | JStr s \<Rightarrow> s \<noteq> [])"

definition with_float ::
  "jval \<Rightarrow> helper \<Rightarrow> (pyfloat \<Rightarrow> (error + bool) \<times> helper) \<Rightarrow> (error + bool) \<times> helper" where
  "with_float v h f = (case float_of v of Inl e \<Rightarrow> (Inl e, h) | Inr r \<Rightarrow> f r)"

definition admitted :: "bool \<times> helper \<Rightarrow> (error + bool) \<times> helper" where
  "admitted r = (case r of (b, h) \<Rightarrow> (Inr b, h))"

fun run_command :: "helper \<Rightarrow> command \<Rightarrow> (error + bool) \<times> helper" where
  "run_command h (EnableJoystick speed stp) =
     with_float speed h (\<lambda>s. with_float stp h (\<lambda>d. enable_joystick h s d))"
| "run_command h DisableJoystick = disable_joystick h"
| "run_command h (Step speed x y z) =
     with_float speed h (\<lambda>s. with_float x h (\<lambda>a. with_float y h (\<lambda>b. with_float z h
       (\<lambda>c. admitted (step h s a b c)))))"
| "run_command h (Home x y z) = admitted (home_axes h (truthy x) (truthy y) (truthy z))"
| "run_command h (Move speed x y z) =
     with_float speed h (\<lambda>s. with_float x h (\<lambda>a. with_float y h (\<lambda>b. with_float z h
       (\<lambda>c. admitted (move_to h s a b c)))))"
| "run_command h (StartAttack name) = start_attack h name"
| "run_command h StopAttack = stop_attack h"
| "run_command h (SafeZ z) = set_safe_z h z"
| "run_command h (OtherCommand c) = (Inr False, h)"

definition send_error :: "server \<Rightarrow> string \<Rightarrow> server" where
  "send_error srv message = srv\<lparr>outbox := outbox srv @ [ErrorMsg message]\<rparr>"

definition send_state_update :: "server \<Rightarrow> ((error + unit) \<times> server) option" where
  "send_state_update srv =
     (case update (helper srv) of
        None \<Rightarrow> None
      | Some (Inl e, h) \<Rightarrow> Some (Inl e, srv\<lparr>helper := h\<rparr>)
      | Some (Inr u, h) \<Rightarrow>
          Some (Inr (), srv\<lparr>helper := h, outbox := outbox srv @ [StateMsg (state h)]\<rparr>))"

text \<open>
  \<open>__message_handler\<close> on a command. While a task is alive every command but
  \<open>disableJoystick\<close> and \<open>stopAttack\<close> is answered with an error and nothing else
  is done. Otherwise the command runs; ValueError is caught, another exception leaves the
  handler; then the state is sent.
\<close>

definition message_handler :: "server \<Rightarrow> command \<Rightarrow> ((error + unit) \<times> server) option" where
  "message_handler srv cmd =
     (if is_running (helper srv) \<and> cmd \<noteq> DisableJoystick \<and> cmd \<noteq> StopAttack
      then Some (Inr (), send_error srv ''Please wait until the previous action terminates.'')
      else (case run_command (helper srv) cmd of
              (Inl e, h) \<Rightarrow>
                if e = ValueError
                then send_state_update (send_error (srv\<lparr>helper := h\<rparr>) ''Please provide valid values.'')
                else Some (Inl e, srv\<lparr>helper := h\<rparr>)
            | (Inr success, h) \<Rightarrow>
                send_state_update
                  (if \<not> success
                   then send_error (srv\<lparr>helper := h\<rparr>) ''An error occurred. Please check the logs.''
                   else srv\<lparr>helper := h\<rparr>)))"

section \<open>Concrete stages and requests\<close>

text \<open>
  Ports used to run the model: one on which nothing ever arrives, one on which a single
  busy message arrives at the tenth read, one that answers the position query with a
  position line and every command with \<open>ok\<close> (each wait reads once more after its
  \<open>ok\<close>, and finds nothing), and one that answers the position query with the busy
  message.
\<close>

definition silent_port :: marlin_serial where
  "silent_port = \<lparr>sim = False, rx = (\<lambda>n. []), rx_pos = 0, tx = [], ser_info = []\<rparr>"

definition late_busy_port :: marlin_serial where
  "late_busy_port =
     \<lparr>sim = False, rx = (\<lambda>n. if n = 9 then BUSY_MSG else []), rx_pos = 0, tx = [],
      ser_info = []\<rparr>"

definition pos_reply :: bytes where
  "pos_reply = ''X:0.00 Y:0.00 Z:95.00 E:0.00 Count X:0 Y:0 Z:0'' @ [CHR 0x0A]"

definition stage_port :: marlin_serial where
  "stage_port =
     \<lparr>sim = False, rx = (\<lambda>n. if n = 0 then pos_reply else if odd n then OK_MSG else []),
      rx_pos = 0, tx = [], ser_info = []\<rparr>"

definition busy_reply_port :: marlin_serial where
  "busy_reply_port =
     \<lparr>sim = False, rx = (\<lambda>n. if n = 0 then BUSY_MSG else OK_MSG), rx_pos = 0, tx = [],
      ser_info = []\<rparr>"

definition sim_port :: marlin_serial where
  "sim_port = \<lparr>sim = True, rx = (\<lambda>n. []), rx_pos = 0, tx = [], ser_info = []\<rparr>"

text \<open>A controller as \<open>__init__\<close> leaves it, on a given port.\<close>

definition stage_on :: "marlin_serial \<Rightarrow> marlin" where
  "stage_on p = \<lparr>ser = p, safe_height = Finite 100, logged = []\<rparr>"

section \<open>What a run leaves in the trace\<close>


definition quiet :: "event list \<Rightarrow> bool" where
  "quiet evs = (EvCriticalCheck False \<notin> set evs \<and> EvShutdown \<notin> set evs \<and> EvCloseLog \<notin> set evs)"




section \<open>Concrete attacks, executors and helpers\<close>

text \<open>
  An attack over two positions with two repetitions each, its class, an executor in
  simulation mode with that attack loaded and a directory for its logs, and an
  environment in which the second critical check fails. The helpers: one as
  \<open>__init__\<close> leaves it, the same with a joystick plugged in, one with a manual
  move running, and one in attack mode with a joystick object left from an earlier
  session.
\<close>

definition demo_attack :: attack where
  "demo_attack = \<lparr>start_pos = (0, 0, 0), end_pos = (1, 0, 0), step_size = 1,
     max_target_temp = 40, cooling = 0, repetitions = 2\<rparr>"

definition demo_cls :: attack_cls where
  "demo_cls = \<lparr>cls_name = ''Demo'', construct = Inr demo_attack\<rparr>"

definition idle_worker :: attack_worker where
  "idle_worker = \<lparr>attack = None, marlin = stage_on sim_port, running = False, progress = 0,
     position = (0, 0, 0), a_log = \<lparr>attack_name = None, logfile = None, dir = None\<rparr>,
     importer = [demo_cls], worker_log = [], tick = 0, trace = []\<rparr>"

definition loaded_worker :: attack_worker where
  "loaded_worker = idle_worker\<lparr>attack := Some demo_attack,
     a_log := \<lparr>attack_name = Some ''Demo'', logfile = None, dir = Some ''logs''\<rparr>\<rparr>"


definition idle_helper :: helper where
  "idle_helper = \<lparr>attack_runner = idle_worker, joystick = None, joystick_present = False,
     task = \<lparr>target = None, thread_state = Unstarted\<rparr>,
     state = \<lparr>mode = Manual, state_position = (Finite 0, Finite 0, Finite 0), temperature = 0,
              state_progress = 0, attacks = [''Demo''], safe_z = JNum (Finite 100)\<rparr>,
     last_temperature = 20, helper_log = []\<rparr>"


definition moving_helper :: helper where
  "moving_helper =
     idle_helper\<lparr>task := started_thread
                           (AbsoluteMove (Finite 1) (Finite 2) (Finite 3) (Finite 5))\<rparr>"


section \<open>Properties of the motion controller\<close>

lemma msg_distinct:
  "OK_MSG \<noteq> BUSY_MSG" "OK_MSG \<noteq> []" "BUSY_MSG \<noteq> []" "BUSY_MSG \<noteq> OK_MSG"
  "pos_reply \<noteq> OK_MSG" "pos_reply \<noteq> BUSY_MSG" "pos_reply \<noteq> []"
  "[] \<noteq> OK_MSG" "[] \<noteq> BUSY_MSG" "[] \<noteq> pos_reply" "OK_MSG \<noteq> pos_reply"
  "BUSY_MSG \<noteq> pos_reply"
  by (simp_all add: OK_MSG_def BUSY_MSG_def pos_reply_def)

lemmas port_defs = wait_cmd_completed_def and_then_def marlin_cmd_def marlin_log_def
  marlin_read_def ser_cmd_def ser_read_def ser_clear_def stage_on_def

lemmas parse_defs = str_bytes_def repr_byte_def parse_position_def coordinate_def
  before_space_def py_float_def float_number_def split_sign_def strip_def is_space_def
  is_digit_def is_word_def same_letter_def digits_value_def float_exponent_def Let_def

lemma parse_position_examples:
  "parse_position (str_bytes pos_reply) = Got (Finite 0, Finite 0, Finite 95)"
  "parse_position (str_bytes BUSY_MSG) = Raised ValueError"
  "parse_position (str_bytes OK_MSG) = Missing"
  by (simp_all add: pos_reply_def BUSY_MSG_def OK_MSG_def parse_defs)

text \<open>
  On a port where neither the busy message nor \<open>ok\<close> is ever read, the wait raises
  after \<open>max_tries + 1\<close> reads, whatever \<open>max_tries\<close> is: the counter is compared
  with \<open>>\<close> after it was incremented.
\<close>

lemma wait_loop_silent:
  assumes "\<not> sim s" and "\<And>i. rx s i \<noteq> BUSY_MSG \<and> rx s i \<noteq> OK_MSG"
  shows "counter \<le> max_tries \<Longrightarrow>
    \<exists>msg. wait_loop max_tries counter msg0 s
      = Some (Inl (IOError msg), s\<lparr>rx_pos := rx_pos s + (max_tries + 1 - counter)\<rparr>)"
  using assms
proof (induction "max_tries - counter" arbitrary: counter msg0 s)
  case 0
  then have c: "counter = max_tries" by simp
  from 0 show ?case
    by (subst wait_loop.simps) (simp add: ser_read_def c Let_def)
next
  case (Suc k)
  let ?res = "rx s (rx_pos s)"
  let ?s1 = "s\<lparr>rx_pos := Suc (rx_pos s)\<rparr>"
  let ?msg1 = "if ?res \<noteq> [] then msg0 @ ?res else msg0"
  have k: "k = max_tries - Suc counter" and le: "Suc counter \<le> max_tries"
    using Suc.hyps(2) by simp_all
  have s1: "\<not> sim ?s1" "\<And>i. rx ?s1 i \<noteq> BUSY_MSG \<and> rx ?s1 i \<noteq> OK_MSG"
    using Suc.prems by simp_all
  from Suc.hyps(1)[OF k le s1, of ?msg1]
  obtain msg where m: "wait_loop max_tries (Suc counter) ?msg1 ?s1
      = Some (Inl (IOError msg), ?s1\<lparr>rx_pos := rx_pos ?s1 + (max_tries + 1 - Suc counter)\<rparr>)"
    by blast
  have unf: "wait_loop max_tries counter msg0 s = wait_loop max_tries (Suc counter) ?msg1 ?s1"
    using Suc.prems le by (subst wait_loop.simps) (simp add: ser_read_def Let_def)
  have "rx_pos ?s1 + (max_tries + 1 - Suc counter) = rx_pos s + (max_tries + 1 - counter)"
    using le by simp
  with m unf show ?case by simp
qed

text \<open>
  Claim C3. The claim has the wait raise after exactly \<open>max_tries\<close> polls. For every
  \<open>max_tries\<close>, on a port where neither the busy message nor \<open>ok\<close> is ever read,
  the wait raises the timeout after exactly \<open>max_tries + 1\<close> reads.
\<close>

theorem wait_cmd_completed_silent_reads:
  assumes "\<not> sim (ser m)" and "\<forall>i. rx (ser m) i \<noteq> BUSY_MSG \<and> rx (ser m) i \<noteq> OK_MSG"
  shows "\<exists>msg. wait_cmd_completed m max_tries
           = Some (Inl (IOError msg),
                   m\<lparr>ser := (ser m)\<lparr>rx_pos := rx_pos (ser m) + (max_tries + 1)\<rparr>\<rparr>)"
proof -
  from assms have "\<And>i. rx (ser m) i \<noteq> BUSY_MSG \<and> rx (ser m) i \<noteq> OK_MSG" by simp
  from wait_loop_silent [OF assms(1) this, of 0 max_tries "[]"]
  obtain msg where "wait_loop max_tries 0 [] (ser m)
      = Some (Inl (IOError msg), (ser m)\<lparr>rx_pos := rx_pos (ser m) + (max_tries + 1)\<rparr>)"
    by auto
  then show ?thesis by (simp add: wait_cmd_completed_def)
qed

text \<open>
  On the silent port the wait with \<open>max_tries = 10\<close> raises after 11 reads, and with
  \<open>max_tries = 1\<close> after 2. A busy message sets the counter to 0 and the same round
  increments it, so after the busy message at the tenth read the wait raises 10 reads
  later; and \<open>ok\<close> ends the wait, which then reads once more and returns what it read.
\<close>

theorem wait_cmd_completed_silent_reads_witness:
  "wait_cmd_completed (stage_on silent_port) 10
     = Some (Inl (IOError []), stage_on (silent_port\<lparr>rx_pos := 11\<rparr>))
   \<and> wait_cmd_completed (stage_on silent_port) 1
     = Some (Inl (IOError []), stage_on (silent_port\<lparr>rx_pos := 2\<rparr>))
   \<and> wait_cmd_completed (stage_on late_busy_port) 10
     = Some (Inl (IOError BUSY_MSG), stage_on (late_busy_port\<lparr>rx_pos := 20\<rparr>))
   \<and> wait_cmd_completed (stage_on busy_reply_port) 10
     = Some (Inr (BUSY_MSG @ OK_MSG @ OK_MSG), stage_on (busy_reply_port\<lparr>rx_pos := 3\<rparr>))"
proof -
  have quiet_port: "\<not> sim (ser (stage_on silent_port))"
    "\<forall>i. rx (ser (stage_on silent_port)) i \<noteq> BUSY_MSG
       \<and> rx (ser (stage_on silent_port)) i \<noteq> OK_MSG"
    by (simp_all add: stage_on_def silent_port_def msg_distinct)
  from wait_cmd_completed_silent_reads [OF quiet_port, of 10]
  obtain m10 where t10: "wait_cmd_completed (stage_on silent_port) 10
      = Some (Inl (IOError m10), stage_on (silent_port\<lparr>rx_pos := 11\<rparr>))"
    by (auto simp: stage_on_def silent_port_def)
  have e10: "wait_cmd_completed (stage_on silent_port) 10
      = Some (Inl (IOError []), stage_on (silent_port\<lparr>rx_pos := 11\<rparr>))"
    by (simp add: port_defs silent_port_def wait_loop.simps msg_distinct)
  from wait_cmd_completed_silent_reads [OF quiet_port, of 1]
  obtain m1 where t1: "wait_cmd_completed (stage_on silent_port) 1
      = Some (Inl (IOError m1), stage_on (silent_port\<lparr>rx_pos := 2\<rparr>))"
    by (auto simp: stage_on_def silent_port_def numeral_2_eq_2)
  have e1: "wait_cmd_completed (stage_on silent_port) 1
      = Some (Inl (IOError []), stage_on (silent_port\<lparr>rx_pos := 2\<rparr>))"
    by (simp add: port_defs silent_port_def wait_loop.simps msg_distinct)
  have busy: "wait_cmd_completed (stage_on late_busy_port) 10
      = Some (Inl (IOError BUSY_MSG), stage_on (late_busy_port\<lparr>rx_pos := 20\<rparr>))"
    by (simp add: port_defs late_busy_port_def wait_loop.simps msg_distinct)
  have ok: "wait_cmd_completed (stage_on busy_reply_port) 10
      = Some (Inr (BUSY_MSG @ OK_MSG @ OK_MSG), stage_on (busy_reply_port\<lparr>rx_pos := 3\<rparr>))"
    by (simp add: port_defs busy_reply_port_def wait_loop.simps msg_distinct)
  from t10 t1 e10 e1 busy ok show ?thesis by simp
qed





text \<open>
  Claim C7. The claim has \<open>get_position\<close> never raise, whatever the reply. When the
  line read after the query is the busy message, its second piece between colons is
  \<open>busy\<close>, \<open>float\<close> raises ValueError, and only IndexError is caught: the call
  raises ValueError to its caller.
\<close>

theorem get_position_busy_reply_raises:
  "get_position (stage_on busy_reply_port)
     = Some (Inl ValueError, stage_on (busy_reply_port\<lparr>rx_pos := 3, tx := [M114]\<rparr>))"
  by (simp add: get_position_def port_defs busy_reply_port_def wait_loop.simps msg_distinct
      parse_position_examples)

text \<open>
  Claim C2. The claim has \<open>relative_move\<close> issue nothing when the resulting height
  is above the safe height. From the height 95, with the safe height 100, a relative
  move by 10 finds the resulting height 105 unsafe, writes the line to the log, and
  goes on: it switches to relative mode, writes the move by 10 (which \<open>move\<close> checks
  as a height of 10 and lets pass), waits for it, and switches back.
\<close>

theorem relative_move_unsafe_height_still_moves:
  "is_safe_height (stage_on stage_port) (float_add (Finite 95) (Finite 10)) = False \<and>
   relative_move (stage_on stage_port) (Some (Finite 0)) (Some (Finite 0)) (Some (Finite 10))
       (Finite 5)
     = Some (Inr (),
         \<lparr>ser = stage_port\<lparr>rx_pos := 11,
                  tx := [M114, G91,
                         G0 (Finite 300) (Some (Finite 0)) (Some (Finite 0)) (Some (Finite 10)),
                         M400, G90]\<rparr>,
          safe_height = Finite 100,
          logged = [(Critical, MsgUnsafeRelative),
                    (Info, MsgMoving (Some (Finite 0)) (Some (Finite 0))
                             (Some (Finite 10)))]\<rparr>)"
  by (simp add: relative_move_def get_position_def relative_mode_def move_def
      wait_move_completed_def is_safe_height_def port_defs stage_port_def wait_loop.simps
      msg_distinct parse_position_examples)

section \<open>Properties of the planner\<close>

lemma range_rounded_examples:
  "range_rounded 0 2 1 = Some [0, 1, 2]" "range_rounded 0 0 1 = Some [0]"
  by (simp_all add: range_rounded_def range_up.simps range_down.simps py_round_def)

text \<open>
  Claim C4. From \<open>(0, 0, 0)\<close> to \<open>(2, 2, 0)\<close> with step 1 the planner returns the
  nine points of the claim in its order, the Y values running back on every second X;
  no point occurs twice.
\<close>

theorem compute_positions_example:
  "compute_positions (0, 0, 0) (2, 2, 0) 1
     = Some (Inr [(0, 0, 0), (0, 1, 0), (0, 2, 0), (1, 2, 0), (1, 1, 0), (1, 0, 0),
                  (2, 0, 0), (2, 1, 0), (2, 2, 0)])
   \<and> length [(0, 0, 0), (0, 1, 0), (0, 2, 0), (1, 2, 0), (1, 1, 0), (1, 0, 0),
              (2, 0, 0), (2, 1, 0), (2, 2, 0 :: int) :: int \<times> int \<times> int] = 9
   \<and> distinct [(0, 0, 0), (0, 1, 0), (0, 2, 0), (1, 2, 0), (1, 1, 0), (1, 0, 0),
                (2, 0, 0), (2, 1, 0), (2, 2, 0 :: int) :: int \<times> int \<times> int]"
  by (simp add: compute_positions_def range_rounded_examples get_decimals_len_def str_int_def
      position_ok_def coordinate_ok_def digit_char_def)

section \<open>Properties of the attack executor\<close>

lemma quiet_simps [simp]: "quiet []" "quiet (xs @ ys) = (quiet xs \<and> quiet ys)"
  "quiet (e # xs) = (e \<noteq> EvCriticalCheck False \<and> e \<noteq> EvShutdown \<and> e \<noteq> EvCloseLog \<and> quiet xs)"
  by (auto simp: quiet_def)











lemma sim_wait: "sim (ser m) \<Longrightarrow> wait_cmd_completed m n = Some (Inr (OK_MSG @ OK_MSG), m)"
  by (simp add: wait_cmd_completed_def wait_loop.simps ser_read_def)












lemma get_attack_by_name_none:
  "name \<notin> set (get_attack_names cs) \<Longrightarrow> get_attack_by_name cs name = None"
  by (induction cs) (auto simp: get_attack_names_def)

text \<open>
  Claim C9. For a name that no class of the registry has, \<open>load_attack\<close> returns
  \<open>False\<close>; the attack loaded before stays, and only the name of the log is set.
\<close>

theorem load_attack_unknown_name:
  "name \<notin> set (get_attack_names (importer w)) \<Longrightarrow>
     load_attack w name = (Inr False, w\<lparr>a_log := set_name (a_log w) name\<rparr>)
     \<and> attack (snd (load_attack w name)) = attack w"
  by (simp add: load_attack_def get_attack_by_name_none)

theorem load_attack_unknown_name_witness:
  "''Nope'' \<notin> set (get_attack_names (importer loaded_worker))
   \<and> fst (load_attack loaded_worker ''Nope'') = Inr False
   \<and> attack (snd (load_attack loaded_worker ''Nope'')) = Some demo_attack"
  using load_attack_unknown_name [of "''Nope''" loaded_worker]
  by (simp add: loaded_worker_def idle_worker_def get_attack_names_def demo_cls_def)

section \<open>Properties of the helper and the control channel\<close>

lemma guard_never_blocks: "\<not> (attack_enabled st \<and> joystick_enabled st)"
  by (simp add: attack_enabled_def joystick_enabled_def)

text \<open>
  Claim C1. The claim has \<open>step\<close>, \<open>home\<close> and \<open>move\<close> refused in joystick and
  in attack mode. Their guard asks that attack mode and joystick mode are not both on,
  which no mode violates: in every state of the helper, whatever its mode, each of the
  three returns \<open>True\<close> and starts its thread on the controller; so they do from joystick
  mode and from attack mode.
\<close>

theorem step_home_move_admitted_in_every_mode:
  "step h speed x y z = (True, h\<lparr>task := started_thread (RelativeMove x y z speed)\<rparr>)
   \<and> home_axes h hx hy hz = (True, h\<lparr>task := started_thread (HomeAxes hx hy hz)\<rparr>)
   \<and> move_to h speed x y z = (True, h\<lparr>task := started_thread (AbsoluteMove x y z speed)\<rparr>)
   \<and> mode (state (set_mode idle_helper Joystick)) = Joystick
   \<and> step (set_mode idle_helper Joystick) (Finite 5) (Finite 1) (Finite 0) (Finite 0)
        = (True, (set_mode idle_helper Joystick)
                   \<lparr>task := started_thread
                              (RelativeMove (Finite 1) (Finite 0) (Finite 0) (Finite 5))\<rparr>)
   \<and> mode (state (set_mode idle_helper Attack)) = Attack
   \<and> move_to (set_mode idle_helper Attack) (Finite 5) (Finite 1) (Finite 2) (Finite 3)
        = (True, (set_mode idle_helper Attack)
                   \<lparr>task := started_thread
                              (AbsoluteMove (Finite 1) (Finite 2) (Finite 3) (Finite 5))\<rparr>)
   \<and> home_axes (set_mode idle_helper Attack) True True True
        = (True, (set_mode idle_helper Attack)\<lparr>task := started_thread (HomeAxes True True True)\<rparr>)"
  by (simp add: step_def home_axes_def move_to_def guard_never_blocks set_mode_def)




text \<open>
  Claim C8. The claim has a \<open>safeZ\<close> request admitted in every state, also while a
  task is alive. With a manual move running, the request is answered with the error of
  the busy check, and neither the safe height of the controller nor \<open>safe_z\<close> of the
  snapshot changes.
\<close>

theorem safeZ_refused_while_task_alive:
  "message_handler \<lparr>helper = moving_helper, outbox = []\<rparr> (SafeZ (JNum (Finite 50)))
     = Some (Inr (), \<lparr>helper = moving_helper,
                      outbox = [ErrorMsg ''Please wait until the previous action terminates.'']\<rparr>)
   \<and> safe_height (marlin (attack_runner moving_helper)) = Finite 100
   \<and> safe_z (state moving_helper) = JNum (Finite 100)"
  by (simp add: message_handler_def is_running_def is_alive_def moving_helper_def idle_helper_def
      started_thread_def send_error_def idle_worker_def stage_on_def)

text \<open>
  Claim C8, amended. \<open>set_safe_z\<close> itself has no guard: in every state of the helper
  and for every number it returns \<open>True\<close> and sets the safe height of the controller
  and \<open>safe_z\<close> of the snapshot. A \<open>safeZ\<close> request reaches it exactly when no task
  is alive: then the handler runs it and sends the state; while a task is alive the
  handler only answers with the error and changes nothing.
\<close>

theorem safeZ_admitted_without_live_task:
  "set_safe_z h (JNum z)
     = (Inr True,
        h\<lparr>attack_runner :=
             (attack_runner h)\<lparr>marlin := set_safe_height (marlin (attack_runner h)) z\<rparr>,
           state := (state h)\<lparr>safe_z := JNum z\<rparr>\<rparr>)
   \<and> safe_height (marlin (attack_runner (snd (set_safe_z h (JNum z))))) = z
   \<and> safe_z (state (snd (set_safe_z h (JNum z)))) = JNum z
   \<and> (is_running (helper srv) \<longrightarrow>
        message_handler srv (SafeZ v)
          = Some (Inr (), send_error srv ''Please wait until the previous action terminates.''))
   \<and> (\<not> is_running (helper srv) \<longrightarrow>
        message_handler srv (SafeZ (JNum z))
          = send_state_update (srv\<lparr>helper := snd (set_safe_z (helper srv) (JNum z))\<rparr>))"
  by (simp add: set_safe_z_def float_of_def set_safe_height_def marlin_log_def message_handler_def)

theorem safeZ_admitted_without_live_task_witness:
  "\<not> is_running idle_helper
   \<and> (\<exists>srv'. message_handler \<lparr>helper = idle_helper, outbox = []\<rparr>
                  (SafeZ (JNum (Finite 50)))
                  = Some (Inr (), srv')
        \<and> safe_height (marlin (attack_runner (helper srv'))) = Finite 50
        \<and> safe_z (state (helper srv')) = JNum (Finite 50)
        \<and> outbox srv' = [StateMsg (state (helper srv'))])"
  using safeZ_admitted_without_live_task
          [of idle_helper "Finite 50" "\<lparr>helper = idle_helper, outbox = []\<rparr>"
              "JNum (Finite 50)"]
  by (simp add: is_running_def is_alive_def idle_helper_def idle_worker_def
      send_state_update_def update_def attack_enabled_def get_position_def and_then_def
      marlin_cmd_def marlin_log_def marlin_read_def ser_cmd_def ser_read_def stage_on_def
      sim_port_def sim_wait parse_position_examples set_safe_z_def float_of_def
      set_safe_height_def Let_def)

end
